theory Spec2Isabelle
  imports Main "HOL-Library.Word" "HOL-Library.AList"
begin

section \<open>Values of the host language\<close>

text \<open>
  A string of the source is a sequence of UTF-16 code units; \<open>.length\<close> counts code
  units and the regular expression compares code units. \<open>lit\<close> embeds an ASCII
  literal of the source.
\<close>

type_synonym code_unit = "16 word"
type_synonym js_string = "code_unit list"

definition lit :: "string \<Rightarrow> js_string" where
  "lit s = map of_char s"

text \<open>
  The arguments of a tool call arrive as a loosely typed bag (\<open>args as {...}\<close> is a
  cast, not a check), and the validators test \<open>typeof\<close>, so \<open>key\<close>, \<open>value\<close> and
  \<open>namespace\<close> are arbitrary values. Numbers are integers: on integers below
  \<open>2^53\<close> in magnitude the arithmetic of the source is exact. \<open>JObject\<close> stands for
  any object or array.
\<close>

datatype js_value =
    JUndefined
  | JNull
  | JBool bool
  | JNum int
  | JStr js_string
  | JObject

fun truthy :: "js_value \<Rightarrow> bool" where
  "truthy JUndefined = False"
| "truthy JNull = False"
| "truthy (JBool b) = b"
| "truthy (JNum n) = (n \<noteq> 0)"
| "truthy (JStr s) = (s \<noteq> [])"
| "truthy JObject = True"

fun is_string :: "js_value \<Rightarrow> bool" where
  "is_string (JStr s) = True"
| "is_string _ = False"

text \<open>
  The string held by a value. Every use below comes after a validator has rejected
  the values that are not strings, so the other equation is never reached by the
  handler (lemma \<open>validateKey_ok_iff\<close>).
\<close>

fun str :: "js_value \<Rightarrow> js_string" where
  "str (JStr s) = s"
| "str _ = []"

section \<open>Errors and responses\<close>

datatype ErrorCode = InvalidParams | InvalidRequest | MethodNotFound | InternalError

text \<open>
  What a function of the source throws: an \<open>McpError\<close> with its code and message, or
  any other error \<open>e\<close>, kept as the text \<open>String(e)\<close>.
\<close>

datatype thrown = McpError ErrorCode js_string | Error js_string

text \<open>
  The text content of a successful response. \<open>KeysJson ks\<close> and \<open>ItemsJson xs\<close> stand
  for the texts \<open>JSON.stringify(ks, null, 2)\<close> and \<open>JSON.stringify(xs, null, 2)\<close>; the
  serialisation itself is not modelled.
\<close>

datatype response =
    Text js_string
  | KeysJson "js_string list"
  | ItemsJson "(js_string \<times> int \<times> int option) list"

section \<open>Validation\<close>

definition MAX_KEY_LENGTH :: nat where
  "MAX_KEY_LENGTH = 256"

definition MAX_VALUE_LENGTH :: nat where
  "MAX_VALUE_LENGTH = 1024 * 1024"

text \<open>The character class \<open>[a-zA-Z0-9-_:.]\<close>.\<close>

definition key_char :: "code_unit \<Rightarrow> bool" where
  "key_char c \<longleftrightarrow>
     (0x61 \<le> c \<and> c \<le> 0x7A) \<or> (0x41 \<le> c \<and> c \<le> 0x5A) \<or> (0x30 \<le> c \<and> c \<le> 0x39)
     \<or> c = 0x2D \<or> c = 0x5F \<or> c = 0x3A \<or> c = 0x2E"

text \<open>\<open>KEY_PATTERN.test\<close> for \<open>/^[a-zA-Z0-9-_:.]+$/\<close>: one or more characters, all in the class.\<close>

definition KEY_PATTERN_test :: "js_string \<Rightarrow> bool" where
  "KEY_PATTERN_test s \<longleftrightarrow> s \<noteq> [] \<and> list_all key_char s"

definition validateKey :: "js_value \<Rightarrow> thrown + unit" where
  "validateKey k =
     (if \<not> truthy k \<or> \<not> is_string k then
        Inl (McpError InvalidParams (lit ''Key must be a non-empty string''))
      else if length (str k) > MAX_KEY_LENGTH then
        Inl (McpError InvalidParams (lit ''Key length must not exceed 256 characters''))
      else if \<not> KEY_PATTERN_test (str k) then
        Inl (McpError InvalidParams
          (lit ''Key must contain only alphanumeric characters, hyphens, underscores, dots, and colons''))
      else Inr ())"

definition validateValue :: "js_value \<Rightarrow> thrown + unit" where
  "validateValue v =
     (if \<not> is_string v then
        Inl (McpError InvalidParams (lit ''Value must be a string''))
      else if length (str v) > MAX_VALUE_LENGTH then
        Inl (McpError InvalidParams (lit ''Value length must not exceed 1048576 bytes''))
      else Inr ())"

definition validateNamespace :: "js_value \<Rightarrow> thrown + unit" where
  "validateNamespace ns = (if ns \<noteq> JUndefined then validateKey ns else Inr ())"

section \<open>The durable mapping\<close>

record StoredValue =
  val :: js_string
  timestamp :: int
  expiry :: "int option"

text \<open>
  Modelled from the spec: the storage engine \<open>node-persist\<close> is an external library
  (only its type declaration is in the repository). The spec treats it as a durable
  mapping from string to payload with get, set, delete and enumerate-keys. It is an
  association list here, whose order is the enumeration order: \<open>setItem\<close> replaces
  the entry of a key that is present and appends a new key, \<open>removeItem\<close> drops the
  key and nothing happens when it is absent, \<open>getItem\<close> of an absent key is
  \<open>undefined\<close> (\<open>None\<close>).

  The engine can fail (I/O, serialisation). A fault plan says, for each primitive
  and key, whether the call throws and with which text; a primitive that throws
  leaves the mapping as it was.
\<close>

type_synonym disk = "(js_string \<times> StoredValue) list"

record faults =
  init_fault :: "js_string option"
  keys_fault :: "js_string option"
  getItem_fault :: "js_string \<Rightarrow> js_string option"
  setItem_fault :: "js_string \<Rightarrow> js_string option"
  removeItem_fault :: "js_string \<Rightarrow> js_string option"

definition no_faults :: faults where
  "no_faults = \<lparr> init_fault = None, keys_fault = None, getItem_fault = (\<lambda>_. None),
                 setItem_fault = (\<lambda>_. None), removeItem_fault = (\<lambda>_. None) \<rparr>"

definition storage_init :: "faults \<Rightarrow> thrown + unit" where
  "storage_init f = (case init_fault f of Some m \<Rightarrow> Inl (Error m) | None \<Rightarrow> Inr ())"

definition storage_keys :: "faults \<Rightarrow> disk \<Rightarrow> thrown + js_string list" where
  "storage_keys f d = (case keys_fault f of Some m \<Rightarrow> Inl (Error m) | None \<Rightarrow> Inr (map fst d))"

definition storage_getItem :: "faults \<Rightarrow> js_string \<Rightarrow> disk \<Rightarrow> thrown + StoredValue option" where
  "storage_getItem f k d =
     (case getItem_fault f k of Some m \<Rightarrow> Inl (Error m) | None \<Rightarrow> Inr (map_of d k))"

definition storage_setItem :: "faults \<Rightarrow> js_string \<Rightarrow> StoredValue \<Rightarrow> disk \<Rightarrow> thrown + disk" where
  "storage_setItem f k v d =
     (case setItem_fault f k of Some m \<Rightarrow> Inl (Error m) | None \<Rightarrow> Inr (AList.update k v d))"

definition storage_removeItem :: "faults \<Rightarrow> js_string \<Rightarrow> disk \<Rightarrow> thrown + disk" where
  "storage_removeItem f k d =
     (case removeItem_fault f k of Some m \<Rightarrow> Inl (Error m) | None \<Rightarrow> Inr (AList.delete k d))"

section \<open>The server\<close>

record state =
  initialized :: bool
  items :: disk

text \<open>
  The values that \<open>Date.now()\<close> returns during one call, in the order of the reads:
  one in the sweep, then up to two in the operation.
\<close>

record clock =
  t_sweep :: int
  t_first :: int
  t_second :: int

definition ensureInitialized :: "faults \<Rightarrow> state \<Rightarrow> thrown + state" where
  "ensureInitialized f s =
     (if \<not> initialized s then
        (case storage_init f of
           Inl e \<Rightarrow> Inl e
         | Inr _ \<Rightarrow> Inr (s\<lparr>initialized := True\<rparr>))
      else Inr s)"

text \<open>The test \<open>data && data.expiry && now > data.expiry\<close>.\<close>

definition expired :: "int \<Rightarrow> StoredValue option \<Rightarrow> bool" where
  "expired now data =
     (case data of
        None \<Rightarrow> False
      | Some r \<Rightarrow> (case expiry r of None \<Rightarrow> False | Some e \<Rightarrow> e \<noteq> 0 \<and> now > e))"

fun sweep_loop :: "faults \<Rightarrow> int \<Rightarrow> js_string list \<Rightarrow> disk \<Rightarrow> (thrown + unit) \<times> disk" where
  "sweep_loop f now [] d = (Inr (), d)"
| "sweep_loop f now (k # ks) d =
     (case storage_getItem f k d of
        Inl e \<Rightarrow> (Inl e, d)
      | Inr data \<Rightarrow>
          if expired now data then
            (case storage_removeItem f k d of
               Inl e \<Rightarrow> (Inl e, d)
             | Inr d' \<Rightarrow> sweep_loop f now ks d')
          else sweep_loop f now ks d)"

definition cleanExpiredValues :: "faults \<Rightarrow> clock \<Rightarrow> disk \<Rightarrow> (thrown + unit) \<times> disk" where
  "cleanExpiredValues f clk d =
     (case storage_keys f d of
        Inl e \<Rightarrow> (Inl e, d)
      | Inr ks \<Rightarrow> sweep_loop f (t_sweep clk) ks d)"

text \<open>
  The argument bag of a call. The field \<open>value\<close> of the source is \<open>val_arg\<close> here. A
  field that is absent is \<open>JUndefined\<close>. Nothing in the handler tests the type of
  \<open>ttl\<close> and \<open>includeMetadata\<close>, so they are taken at their declared types: a number
  or absent, and a boolean (absent is \<open>False\<close>).
\<close>

record args =
  key :: js_value
  val_arg :: js_value
  namespace :: js_value
  ttl :: "int option"
  includeMetadata :: bool

record request =
  name :: js_string
  arguments :: args

text \<open>\<open>namespace ? `${namespace}:${key}` : key\<close>\<close>

definition storageKey :: "js_value \<Rightarrow> js_value \<Rightarrow> js_string" where
  "storageKey ns k = (if truthy ns then str ns @ lit '':'' @ str k else str k)"

definition store_case :: "faults \<Rightarrow> clock \<Rightarrow> args \<Rightarrow> disk \<Rightarrow> (thrown + response) \<times> disk" where
  "store_case f clk a d =
     (case validateKey (key a) of
        Inl e \<Rightarrow> (Inl e, d)
      | Inr _ \<Rightarrow>
     (case validateValue (val_arg a) of
        Inl e \<Rightarrow> (Inl e, d)
      | Inr _ \<Rightarrow>
     (case validateNamespace (namespace a) of
        Inl e \<Rightarrow> (Inl e, d)
      | Inr _ \<Rightarrow>
        (let sk = storageKey (namespace a) (key a);
             storedValue =
               \<lparr> val = str (val_arg a),
                 timestamp = t_first clk,
                 expiry = (case ttl a of
                             None \<Rightarrow> None
                           | Some n \<Rightarrow> if n \<noteq> 0 then Some (t_second clk + n * 1000) else None) \<rparr>
         in (case storage_setItem f sk storedValue d of
               Inl e \<Rightarrow> (Inl e, d)
             | Inr d' \<Rightarrow>
                 (Inr (Text (lit ''Successfully stored value for key: '' @ str (key a))), d'))))))"

definition retrieve_case :: "faults \<Rightarrow> clock \<Rightarrow> args \<Rightarrow> disk \<Rightarrow> (thrown + response) \<times> disk" where
  "retrieve_case f clk a d =
     (case validateKey (key a) of
        Inl e \<Rightarrow> (Inl e, d)
      | Inr _ \<Rightarrow>
     (case validateNamespace (namespace a) of
        Inl e \<Rightarrow> (Inl e, d)
      | Inr _ \<Rightarrow>
        (let sk = storageKey (namespace a) (key a)
         in (case storage_getItem f sk d of
               Inl e \<Rightarrow> (Inl e, d)
             | Inr None \<Rightarrow>
                 (Inl (McpError InvalidRequest (lit ''No value found for key: '' @ str (key a))), d)
             | Inr (Some r) \<Rightarrow>
                 if expired (t_first clk) (Some r) then
                   (Inl (McpError InvalidRequest (lit ''No value found for key: '' @ str (key a))), d)
                 else (Inr (Text (val r)), d)))))"

text \<open>
  The entries of \<open>list\<close> with \<open>includeMetadata\<close>. Reading a field of \<open>undefined\<close>
  throws a \<open>TypeError\<close>.
\<close>

fun list_items :: "faults \<Rightarrow> disk \<Rightarrow> js_string list \<Rightarrow> thrown + (js_string \<times> int \<times> int option) list" where
  "list_items f d [] = Inr []"
| "list_items f d (k # ks) =
     (case storage_getItem f k d of
        Inl e \<Rightarrow> Inl e
      | Inr None \<Rightarrow> Inl (Error (lit ''TypeError: Cannot read properties of undefined''))
      | Inr (Some r) \<Rightarrow>
          (case list_items f d ks of
             Inl e \<Rightarrow> Inl e
           | Inr xs \<Rightarrow> Inr ((k, timestamp r, expiry r) # xs)))"

text \<open>\<open>k.startsWith(p)\<close>\<close>

definition startsWith :: "js_string \<Rightarrow> js_string \<Rightarrow> bool" where
  "startsWith k p \<longleftrightarrow> take (length p) k = p"

definition list_case :: "faults \<Rightarrow> args \<Rightarrow> disk \<Rightarrow> (thrown + response) \<times> disk" where
  "list_case f a d =
     (case validateNamespace (namespace a) of
        Inl e \<Rightarrow> (Inl e, d)
      | Inr _ \<Rightarrow>
     (case storage_keys f d of
        Inl e \<Rightarrow> (Inl e, d)
      | Inr ks \<Rightarrow>
        (let filteredKeys =
               (if truthy (namespace a)
                then filter (\<lambda>k. startsWith k (str (namespace a) @ lit '':'')) ks
                else ks)
         in if includeMetadata a then
              (case list_items f d filteredKeys of
                 Inl e \<Rightarrow> (Inl e, d)
               | Inr xs \<Rightarrow> (Inr (ItemsJson xs), d))
            else (Inr (KeysJson filteredKeys), d))))"

definition delete_case :: "faults \<Rightarrow> args \<Rightarrow> disk \<Rightarrow> (thrown + response) \<times> disk" where
  "delete_case f a d =
     (case validateKey (key a) of
        Inl e \<Rightarrow> (Inl e, d)
      | Inr _ \<Rightarrow>
     (case validateNamespace (namespace a) of
        Inl e \<Rightarrow> (Inl e, d)
      | Inr _ \<Rightarrow>
        (let sk = storageKey (namespace a) (key a)
         in (case storage_removeItem f sk d of
               Inl e \<Rightarrow> (Inl e, d)
             | Inr d' \<Rightarrow> (Inr (Text (lit ''Successfully deleted key: '' @ str (key a))), d')))))"

text \<open>The \<open>switch\<close> on the tool name.\<close>

definition dispatch :: "faults \<Rightarrow> clock \<Rightarrow> request \<Rightarrow> disk \<Rightarrow> (thrown + response) \<times> disk" where
  "dispatch f clk req d =
     (if name req = lit ''store'' then store_case f clk (arguments req) d
      else if name req = lit ''retrieve'' then retrieve_case f clk (arguments req) d
      else if name req = lit ''list'' then list_case f (arguments req) d
      else if name req = lit ''delete'' then delete_case f (arguments req) d
      else (Inl (McpError MethodNotFound (lit ''Unknown tool: '' @ name req)), d))"

text \<open>The \<open>catch\<close> clause: an \<open>McpError\<close> is rethrown, anything else is wrapped.\<close>

fun catch_wrap :: "thrown + response \<Rightarrow> thrown + response" where
  "catch_wrap (Inl (Error m)) = Inl (McpError InternalError m)"
| "catch_wrap r = r"

text \<open>
  The handler of a tool call: initialisation and the expiry sweep come first, outside
  the \<open>try\<close> block; the \<open>switch\<close> runs inside it.
\<close>

definition handle_call :: "faults \<Rightarrow> clock \<Rightarrow> request \<Rightarrow> state \<Rightarrow> (thrown + response) \<times> state" where
  "handle_call f clk req s =
     (case ensureInitialized f s of
        Inl e \<Rightarrow> (Inl e, s)
      | Inr s1 \<Rightarrow>
          (case cleanExpiredValues f clk (items s1) of
             (Inl e, d1) \<Rightarrow> (Inl e, s1\<lparr>items := d1\<rparr>)
           | (Inr _, d1) \<Rightarrow>
               (case dispatch f clk req d1 of
                  (r, d2) \<Rightarrow> (catch_wrap r, s1\<lparr>items := d2\<rparr>))))"

section \<open>Notions used by the properties\<close>

text \<open>
  The inputs of a call fail validation when one of the validators that the
  operation runs throws.
\<close>

definition fails_validation :: "request \<Rightarrow> bool" where
  "fails_validation req =
     (let a = arguments req in
      if name req = lit ''store'' then
        validateKey (key a) \<noteq> Inr () \<or> validateValue (val_arg a) \<noteq> Inr ()
          \<or> validateNamespace (namespace a) \<noteq> Inr ()
      else if name req = lit ''retrieve'' \<or> name req = lit ''delete'' then
        validateKey (key a) \<noteq> Inr () \<or> validateNamespace (namespace a) \<noteq> Inr ()
      else if name req = lit ''list'' then
        validateNamespace (namespace a) \<noteq> Inr ()
      else False)"

text \<open>
  The size in bytes of a string written as UTF-8 (what \<open>Buffer.byteLength\<close> returns):
  a surrogate pair takes four bytes, a lone surrogate three. The source never
  computes it; it is the size that the limit of one mebibyte is worded in.
\<close>

definition unit_bytes :: "code_unit \<Rightarrow> nat" where
  "unit_bytes c = (if c < 0x80 then 1 else if c < 0x800 then 2 else 3)"

definition high_surrogate :: "code_unit \<Rightarrow> bool" where
  "high_surrogate c \<longleftrightarrow> 0xD800 \<le> c \<and> c \<le> 0xDBFF"

definition low_surrogate :: "code_unit \<Rightarrow> bool" where
  "low_surrogate c \<longleftrightarrow> 0xDC00 \<le> c \<and> c \<le> 0xDFFF"

fun utf8_bytes :: "js_string \<Rightarrow> nat" where
  "utf8_bytes [] = 0"
| "utf8_bytes [c] = unit_bytes c"
| "utf8_bytes (c # c' # cs) =
     (if high_surrogate c \<and> low_surrogate c' then 4 + utf8_bytes cs
      else unit_bytes c + utf8_bytes (c' # cs))"

section \<open>Basic facts\<close>

text \<open>
  The properties of the storage semantics below are stated for a durable mapping
  that does not fail, \<open>no_faults\<close>; the fault plans matter for the errors that leave
  the handler.
\<close>

lemma storage_no_faults [simp]:
  "storage_init no_faults = Inr ()"
  "storage_keys no_faults d = Inr (map fst d)"
  "storage_getItem no_faults k d = Inr (map_of d k)"
  "storage_setItem no_faults k v d = Inr (AList.update k v d)"
  "storage_removeItem no_faults k d = Inr (AList.delete k d)"
  by (simp_all add: no_faults_def storage_init_def storage_keys_def storage_getItem_def
        storage_setItem_def storage_removeItem_def)

lemma validateKey_ok_iff:
  "validateKey k = Inr () \<longleftrightarrow>
     (\<exists>s. k = JStr s \<and> s \<noteq> [] \<and> length s \<le> 256 \<and> (\<forall>c \<in> set s. key_char c))"
  by (cases k) (auto simp: validateKey_def MAX_KEY_LENGTH_def KEY_PATTERN_test_def list_all_iff)

lemma validateKey_cases:
  "validateKey k = Inr () \<or> (\<exists>m. validateKey k = Inl (McpError InvalidParams m))"
  by (simp add: validateKey_def)

lemma validateValue_cases:
  "validateValue v = Inr () \<or> (\<exists>m. validateValue v = Inl (McpError InvalidParams m))"
  by (simp add: validateValue_def)

lemma validateNamespace_cases:
  "validateNamespace ns = Inr () \<or> (\<exists>m. validateNamespace ns = Inl (McpError InvalidParams m))"
  using validateKey_cases [of ns] by (simp add: validateNamespace_def)

lemma expired_None [simp]: "expired now None = False"
  by (simp add: expired_def)

lemma expired_Some:
  "expired now (Some r) \<longleftrightarrow> (\<exists>e. expiry r = Some e \<and> e \<noteq> 0 \<and> e < now)"
  by (simp add: expired_def split: option.splits)

lemma sweep_loop_no_faults:
  "sweep_loop no_faults now ks d =
     (Inr (), filter (\<lambda>(k, r). \<not> (k \<in> set ks \<and> expired now (map_of d k))) d)"
proof (induction ks arbitrary: d)
  case Nil
  then show ?case by simp
next
  case (Cons k0 ks)
  show ?case
  proof (cases "expired now (map_of d k0)")
    case True
    have "filter (\<lambda>(k, r). \<not> (k \<in> set ks \<and> expired now (map_of (AList.delete k0 d) k))) (AList.delete k0 d)
        = filter (\<lambda>(k, r). \<not> (k \<in> set (k0 # ks) \<and> expired now (map_of d k))) d"
      unfolding AList.delete_eq filter_filter
      by (rule filter_cong) (auto simp: True delete_conv' simp flip: AList.delete_eq split: if_splits)
    with True show ?thesis by (simp add: Cons.IH)
  next
    case False
    have "filter (\<lambda>(k, r). \<not> (k \<in> set ks \<and> expired now (map_of d k))) d
        = filter (\<lambda>(k, r). \<not> (k \<in> set (k0 # ks) \<and> expired now (map_of d k))) d"
      by (rule filter_cong) (auto simp: False)
    with False show ?thesis by (simp add: Cons.IH)
  qed
qed

lemma cleanExpiredValues_no_faults:
  "cleanExpiredValues no_faults clk d =
     (Inr (), filter (\<lambda>(k, r). \<not> expired (t_sweep clk) (map_of d k)) d)"
proof -
  have "filter (\<lambda>(k, r). \<not> (k \<in> set (map fst d) \<and> expired (t_sweep clk) (map_of d k))) d
      = filter (\<lambda>(k, r). \<not> expired (t_sweep clk) (map_of d k)) d"
    by (rule filter_cong) (auto simp: rev_image_eqI)
  then show ?thesis
    by (simp add: cleanExpiredValues_def sweep_loop_no_faults)
qed

lemma map_of_filter_key:
  "map_of (filter (\<lambda>(k, r). P k) d) k = (if P k then map_of d k else None)"
  by (induction d) auto

lemma map_of_swept:
  "map_of (snd (cleanExpiredValues no_faults clk d)) k =
     (if expired (t_sweep clk) (map_of d k) then None else map_of d k)"
  by (simp add: cleanExpiredValues_no_faults map_of_filter_key)

lemma swept_nothing_expired:
  "\<forall>k. \<not> expired (t_sweep clk) (map_of d k) \<Longrightarrow> snd (cleanExpiredValues no_faults clk d) = d"
  by (simp add: cleanExpiredValues_no_faults)

lemma tool_names [simp]:
  "lit ''store'' \<noteq> lit ''retrieve''" "lit ''store'' \<noteq> lit ''list''" "lit ''store'' \<noteq> lit ''delete''"
  "lit ''retrieve'' \<noteq> lit ''store''" "lit ''retrieve'' \<noteq> lit ''list''" "lit ''retrieve'' \<noteq> lit ''delete''"
  "lit ''list'' \<noteq> lit ''store''" "lit ''list'' \<noteq> lit ''retrieve''" "lit ''list'' \<noteq> lit ''delete''"
  "lit ''delete'' \<noteq> lit ''store''" "lit ''delete'' \<noteq> lit ''retrieve''" "lit ''delete'' \<noteq> lit ''list''"
  by (simp_all add: lit_def)

lemma handle_call_no_faults:
  "handle_call no_faults clk req s =
     (case dispatch no_faults clk req (snd (cleanExpiredValues no_faults clk (items s))) of
        (r, d2) \<Rightarrow> (catch_wrap r, \<lparr>initialized = True, items = d2\<rparr>))"
  by (cases s) (simp add: handle_call_def ensureInitialized_def cleanExpiredValues_no_faults split: prod.splits)

lemma valid_key_truthy:
  "validateKey k = Inr () \<Longrightarrow> truthy k \<and> is_string k"
  by (auto simp: validateKey_ok_iff)

lemma valid_namespace_truthy:
  "validateNamespace ns = Inr () \<Longrightarrow> truthy ns \<longleftrightarrow> ns \<noteq> JUndefined"
  by (auto simp: validateNamespace_def validateKey_ok_iff split: if_splits)

lemma store_case_valid:
  assumes "validateKey (key a) = Inr ()" "validateValue (val_arg a) = Inr ()"
    "validateNamespace (namespace a) = Inr ()"
  shows "store_case no_faults clk a d =
     (Inr (Text (lit ''Successfully stored value for key: '' @ str (key a))),
      AList.update (storageKey (namespace a) (key a))
        \<lparr> val = str (val_arg a), timestamp = t_first clk,
          expiry = (case ttl a of None \<Rightarrow> None
                    | Some n \<Rightarrow> if n \<noteq> 0 then Some (t_second clk + n * 1000) else None) \<rparr> d)"
  using assms by (simp add: store_case_def Let_def)

lemma retrieve_case_valid:
  assumes "validateKey (key a) = Inr ()" "validateNamespace (namespace a) = Inr ()"
  shows "retrieve_case no_faults clk a d =
     (case map_of d (storageKey (namespace a) (key a)) of
        None \<Rightarrow> (Inl (McpError InvalidRequest (lit ''No value found for key: '' @ str (key a))), d)
      | Some r \<Rightarrow>
          if expired (t_first clk) (Some r) then
            (Inl (McpError InvalidRequest (lit ''No value found for key: '' @ str (key a))), d)
          else (Inr (Text (val r)), d))"
  using assms by (simp add: retrieve_case_def Let_def)

lemma delete_case_valid:
  assumes "validateKey (key a) = Inr ()" "validateNamespace (namespace a) = Inr ()"
  shows "delete_case no_faults a d =
     (Inr (Text (lit ''Successfully deleted key: '' @ str (key a))),
      AList.delete (storageKey (namespace a) (key a)) d)"
  using assms by (simp add: delete_case_def Let_def)

lemma list_case_valid:
  assumes "validateNamespace (namespace a) = Inr ()" "\<not> includeMetadata a"
  shows "list_case no_faults a d =
     (Inr (KeysJson (if namespace a = JUndefined then map fst d
                     else filter (\<lambda>k. startsWith k (str (namespace a) @ lit '':'')) (map fst d))), d)"
  using assms valid_namespace_truthy [OF assms(1)] by (simp add: list_case_def Let_def)

lemma dispatch_names [simp]:
  "name req = lit ''store'' \<Longrightarrow> dispatch f clk req d = store_case f clk (arguments req) d"
  "name req = lit ''retrieve'' \<Longrightarrow> dispatch f clk req d = retrieve_case f clk (arguments req) d"
  "name req = lit ''list'' \<Longrightarrow> dispatch f clk req d = list_case f (arguments req) d"
  "name req = lit ''delete'' \<Longrightarrow> dispatch f clk req d = delete_case f (arguments req) d"
  by (simp_all add: dispatch_def)

lemma startsWith_iff_append: "startsWith k p \<longleftrightarrow> (\<exists>rest. k = p @ rest)"
  unfolding startsWith_def
  by (metis append_eq_conv_conj)

lemma store_case_invalid:
  assumes "validateKey (key a) \<noteq> Inr () \<or> validateValue (val_arg a) \<noteq> Inr ()
             \<or> validateNamespace (namespace a) \<noteq> Inr ()"
  shows "\<exists>m. store_case f clk a d = (Inl (McpError InvalidParams m), d)"
  using assms validateKey_cases [of "key a"] validateValue_cases [of "val_arg a"]
    validateNamespace_cases [of "namespace a"]
  by (auto simp: store_case_def)

lemma retrieve_case_invalid:
  assumes "validateKey (key a) \<noteq> Inr () \<or> validateNamespace (namespace a) \<noteq> Inr ()"
  shows "\<exists>m. retrieve_case f clk a d = (Inl (McpError InvalidParams m), d)"
  using assms validateKey_cases [of "key a"] validateNamespace_cases [of "namespace a"]
  by (auto simp: retrieve_case_def)

lemma delete_case_invalid:
  assumes "validateKey (key a) \<noteq> Inr () \<or> validateNamespace (namespace a) \<noteq> Inr ()"
  shows "\<exists>m. delete_case f a d = (Inl (McpError InvalidParams m), d)"
  using assms validateKey_cases [of "key a"] validateNamespace_cases [of "namespace a"]
  by (auto simp: delete_case_def)

lemma list_case_invalid:
  assumes "validateNamespace (namespace a) \<noteq> Inr ()"
  shows "\<exists>m. list_case f a d = (Inl (McpError InvalidParams m), d)"
  using assms validateNamespace_cases [of "namespace a"]
  by (auto simp: list_case_def)

lemma dispatch_invalid:
  assumes "fails_validation req"
  shows "\<exists>m. dispatch f clk req d = (Inl (McpError InvalidParams m), d)"
proof -
  consider "name req = lit ''store''" | "name req = lit ''retrieve''" | "name req = lit ''list''"
    | "name req = lit ''delete''"
    using assms by (auto simp: fails_validation_def Let_def split: if_splits)
  then show ?thesis
  proof cases
    case 1
    with assms show ?thesis
      by (simp add: fails_validation_def Let_def store_case_invalid)
  next
    case 2
    with assms show ?thesis
      by (simp add: fails_validation_def Let_def retrieve_case_invalid)
  next
    case 3
    with assms show ?thesis
      by (simp add: fails_validation_def Let_def list_case_invalid)
  next
    case 4
    with assms show ?thesis
      by (simp add: fails_validation_def Let_def delete_case_invalid)
  qed
qed

lemma store_case_frame:
  "map_of (snd (store_case no_faults clk a d)) k = map_of d k
     \<or> storageKey (namespace a) (key a) = k \<and> map_of (snd (store_case no_faults clk a d)) k \<noteq> None"
  by (simp add: store_case_def Let_def update_conv' split: sum.splits)

lemma retrieve_case_frame: "snd (retrieve_case f clk a d) = d"
  by (simp add: retrieve_case_def Let_def split: sum.splits option.splits)

lemma list_case_frame: "snd (list_case f a d) = d"
  by (simp add: list_case_def Let_def split: sum.splits)

lemma delete_case_frame:
  "map_of (snd (delete_case no_faults a d)) k = map_of d k \<or> storageKey (namespace a) (key a) = k"
  by (simp add: delete_case_def Let_def delete_conv' split: sum.splits)

lemma dispatch_frame:
  "map_of (snd (dispatch no_faults clk req d)) k = map_of d k
     \<or> name req = lit ''store'' \<and> storageKey (namespace (arguments req)) (key (arguments req)) = k
          \<and> map_of (snd (dispatch no_faults clk req d)) k \<noteq> None
     \<or> name req = lit ''delete'' \<and> storageKey (namespace (arguments req)) (key (arguments req)) = k"
  using store_case_frame [of clk "arguments req" d k] delete_case_frame [of "arguments req" d k]
  by (auto simp: dispatch_def retrieve_case_frame list_case_frame)

lemma catch_wrap_never_plain: "catch_wrap r \<noteq> Inl (Error m)"
  by (cases r rule: catch_wrap.cases) simp_all

lemma plain_error_only_before_try:
  assumes "fst (handle_call f clk req s) = Inl (Error m)"
  shows "ensureInitialized f s = Inl (Error m)
       \<or> (\<exists>s1. ensureInitialized f s = Inr s1 \<and> fst (cleanExpiredValues f clk (items s1)) = Inl (Error m))"
  using assms catch_wrap_never_plain
  by (auto simp: handle_call_def split: sum.splits prod.splits)

lemma unit_bytes_pos: "1 \<le> unit_bytes c"
  by (simp add: unit_bytes_def)

lemma length_le_utf8_bytes: "length s \<le> utf8_bytes s"
proof (induction s rule: utf8_bytes.induct)
  case 1
  then show ?case by simp
next
  case (2 c)
  then show ?case using unit_bytes_pos [of c] by simp
next
  case (3 c c' cs)
  then show ?case using unit_bytes_pos [of c] by (auto split: if_splits)
qed

lemma small_value_accepted:
  "utf8_bytes s \<le> 1048576 \<Longrightarrow> validateValue (JStr s) = Inr ()"
  using length_le_utf8_bytes [of s] by (simp add: validateValue_def MAX_VALUE_LENGTH_def)

lemma long_value_rejected:
  assumes "length (str v) > 1048576"
  shows "\<exists>m. handle_call no_faults clk
            \<lparr>name = lit ''store'',
             arguments = \<lparr>key = k, val_arg = v, namespace = ns, ttl = t, includeMetadata = b\<rparr>\<rparr> s
          = (Inl (McpError InvalidParams m),
             \<lparr>initialized = True, items = snd (cleanExpiredValues no_faults clk (items s))\<rparr>)"
proof -
  have "validateValue v \<noteq> Inr ()"
    using assms by (simp add: validateValue_def MAX_VALUE_LENGTH_def)
  then obtain m where "store_case no_faults clk
      \<lparr>key = k, val_arg = v, namespace = ns, ttl = t, includeMetadata = b\<rparr>
      (snd (cleanExpiredValues no_faults clk (items s)))
      = (Inl (McpError InvalidParams m), snd (cleanExpiredValues no_faults clk (items s)))"
    using store_case_invalid [of "\<lparr>key = k, val_arg = v, namespace = ns, ttl = t, includeMetadata = b\<rparr>"
        no_faults clk "snd (cleanExpiredValues no_faults clk (items s))"]
    by auto
  then show ?thesis
    by (simp add: handle_call_no_faults)
qed

lemma utf8_bytes_two_byte_units:
  "utf8_bytes (replicate n (0xE9 :: code_unit)) = 2 * n"
proof (induction n rule: less_induct)
  case (less n)
  show ?case
  proof (cases n)
    case 0
    then show ?thesis by simp
  next
    case (Suc m)
    show ?thesis
    proof (cases m)
      case 0
      with Suc show ?thesis by (simp add: unit_bytes_def)
    next
      case (Suc j)
      have "utf8_bytes (replicate (Suc j) (0xE9 :: code_unit)) = 2 * Suc j"
        using less.IH [of "Suc j"] \<open>n = Suc m\<close> Suc by simp
      with \<open>n = Suc m\<close> Suc show ?thesis
        by (simp add: unit_bytes_def high_surrogate_def)
    qed
  qed
qed

section \<open>Validation of keys and namespaces\<close>

text \<open>
  C8: \<open>validateKey\<close> fails exactly when the key is not a string, is empty, is longer
  than 256 characters, or contains a character outside \<open>[A-Za-z0-9-_:.]\<close>, and every
  failure is an \<open>InvalidParams\<close> error. A namespace that is supplied is checked by
  \<open>validateKey\<close>; an absent namespace is valid.
\<close>

theorem validateKey_exact:
  "(validateKey k \<noteq> Inr ()
      \<longleftrightarrow> \<not> is_string k \<or> str k = [] \<or> length (str k) > 256 \<or> (\<exists>c \<in> set (str k). \<not> key_char c))
   \<and> (validateKey k \<noteq> Inr () \<longrightarrow> (\<exists>m. validateKey k = Inl (McpError InvalidParams m)))
   \<and> (ns \<noteq> JUndefined \<longrightarrow> validateNamespace ns = validateKey ns)
   \<and> validateNamespace JUndefined = Inr ()"
proof -
  have "validateKey k \<noteq> Inr ()
      \<longleftrightarrow> \<not> is_string k \<or> str k = [] \<or> length (str k) > 256 \<or> (\<exists>c \<in> set (str k). \<not> key_char c)"
    by (cases k) (auto simp: validateKey_ok_iff)
  moreover have "validateKey k \<noteq> Inr () \<longrightarrow> (\<exists>m. validateKey k = Inl (McpError InvalidParams m))"
    using validateKey_cases [of k] by blast
  ultimately show ?thesis
    by (simp add: validateNamespace_def)
qed

theorem validateKey_exact_witness:
  "validateKey (JStr (lit ''a b'')) \<noteq> Inr ()
   \<and> (\<exists>c \<in> set (lit ''a b''). \<not> key_char c)
   \<and> (\<exists>m. validateKey (JStr (lit ''a b'')) = Inl (McpError InvalidParams m))
   \<and> validateNamespace (JStr (lit ''proj'')) = validateKey (JStr (lit ''proj''))"
  using validateKey_exact [of "JStr (lit ''a b'')" "JStr (lit ''proj'')"]
  by (simp add: lit_def key_char_def)

section \<open>Store and retrieve\<close>

text \<open>
  C1: for every key, value and namespace that pass validation, a \<open>store\<close> call without
  a TTL succeeds, and a \<open>retrieve\<close> call with the same key and namespace on the state
  it leaves succeeds and returns exactly the stored value, whatever the clock reads
  in either call.
\<close>

theorem store_then_retrieve:
  assumes "validateKey k = Inr ()" and "validateValue v = Inr ()" and "validateNamespace ns = Inr ()"
  shows "fst (handle_call no_faults clk1
            \<lparr>name = lit ''store'',
             arguments = \<lparr>key = k, val_arg = v, namespace = ns, ttl = None, includeMetadata = b1\<rparr>\<rparr> s)
           = Inr (Text (lit ''Successfully stored value for key: '' @ str k))
       \<and> fst (handle_call no_faults clk2
            \<lparr>name = lit ''retrieve'',
             arguments = \<lparr>key = k, val_arg = v2, namespace = ns, ttl = t2, includeMetadata = b2\<rparr>\<rparr>
            (snd (handle_call no_faults clk1
               \<lparr>name = lit ''store'',
                arguments = \<lparr>key = k, val_arg = v, namespace = ns, ttl = None, includeMetadata = b1\<rparr>\<rparr> s)))
           = Inr (Text (str v))"
proof -
  let ?sreq = "\<lparr>name = lit ''store'',
     arguments = \<lparr>key = k, val_arg = v, namespace = ns, ttl = None, includeMetadata = b1\<rparr>\<rparr>"
  let ?rec = "\<lparr>val = str v, timestamp = t_first clk1, expiry = None\<rparr>"
  let ?sk = "storageKey ns k"
  let ?d1 = "snd (cleanExpiredValues no_faults clk1 (items s))"
  have stored: "handle_call no_faults clk1 ?sreq s =
      (Inr (Text (lit ''Successfully stored value for key: '' @ str k)),
       \<lparr>initialized = True, items = AList.update ?sk ?rec ?d1\<rparr>)"
    using assms by (simp add: handle_call_no_faults store_case_valid)
  have live: "map_of (snd (cleanExpiredValues no_faults clk2 (AList.update ?sk ?rec ?d1))) ?sk = Some ?rec"
    by (simp add: map_of_swept update_conv' expired_Some)
  show ?thesis
    unfolding stored using assms live
    by (simp add: handle_call_no_faults retrieve_case_valid expired_Some)
qed

theorem store_then_retrieve_witness:
  "fst (handle_call no_faults \<lparr>t_sweep = 10, t_first = 11, t_second = 12\<rparr>
            \<lparr>name = lit ''store'',
             arguments = \<lparr>key = JStr (lit ''a''), val_arg = JStr (lit ''1''), namespace = JStr (lit ''proj''),
                          ttl = None, includeMetadata = False\<rparr>\<rparr>
            \<lparr>initialized = False, items = []\<rparr>)
           = Inr (Text (lit ''Successfully stored value for key: a''))
       \<and> fst (handle_call no_faults \<lparr>t_sweep = 20, t_first = 21, t_second = 22\<rparr>
            \<lparr>name = lit ''retrieve'',
             arguments = \<lparr>key = JStr (lit ''a''), val_arg = JUndefined, namespace = JStr (lit ''proj''),
                          ttl = None, includeMetadata = False\<rparr>\<rparr>
            (snd (handle_call no_faults \<lparr>t_sweep = 10, t_first = 11, t_second = 12\<rparr>
               \<lparr>name = lit ''store'',
                arguments = \<lparr>key = JStr (lit ''a''), val_arg = JStr (lit ''1''), namespace = JStr (lit ''proj''),
                             ttl = None, includeMetadata = False\<rparr>\<rparr>
               \<lparr>initialized = False, items = []\<rparr>)))
           = Inr (Text (lit ''1''))"
proof -
  have k: "validateKey (JStr (lit ''a'')) = Inr ()"
    by (simp add: validateKey_ok_iff lit_def key_char_def)
  have v: "validateValue (JStr (lit ''1'')) = Inr ()"
    by (simp add: validateValue_def MAX_VALUE_LENGTH_def lit_def)
  have n: "validateNamespace (JStr (lit ''proj'')) = Inr ()"
    by (simp add: validateNamespace_def validateKey_ok_iff lit_def key_char_def)
  show ?thesis
    using store_then_retrieve [OF k v n, of "\<lparr>t_sweep = 10, t_first = 11, t_second = 12\<rparr>" False
        "\<lparr>initialized = False, items = []\<rparr>" "\<lparr>t_sweep = 20, t_first = 21, t_second = 22\<rparr>"
        JUndefined None False]
    by (simp add: lit_def)
qed

section \<open>Expiry seen by retrieve\<close>




section \<open>Delete\<close>

text \<open>
  C7: for every key and namespace that pass validation and every state, with or
  without a record under the storage key, \<open>delete\<close> succeeds with an acknowledgement
  that names the original key, and a \<open>retrieve\<close> call with the same key and namespace
  on the state it leaves fails with the not-found error \<open>InvalidRequest\<close>.
\<close>

theorem delete_then_retrieve:
  assumes "validateKey k = Inr ()" and "validateNamespace ns = Inr ()"
  shows "fst (handle_call no_faults clk1
            \<lparr>name = lit ''delete'',
             arguments = \<lparr>key = k, val_arg = v1, namespace = ns, ttl = t1, includeMetadata = b1\<rparr>\<rparr> s)
           = Inr (Text (lit ''Successfully deleted key: '' @ str k))
       \<and> fst (handle_call no_faults clk2
            \<lparr>name = lit ''retrieve'',
             arguments = \<lparr>key = k, val_arg = v2, namespace = ns, ttl = t2, includeMetadata = b2\<rparr>\<rparr>
            (snd (handle_call no_faults clk1
               \<lparr>name = lit ''delete'',
                arguments = \<lparr>key = k, val_arg = v1, namespace = ns, ttl = t1, includeMetadata = b1\<rparr>\<rparr> s)))
           = Inl (McpError InvalidRequest (lit ''No value found for key: '' @ str k))"
proof -
  let ?sk = "storageKey ns k"
  let ?d1 = "snd (cleanExpiredValues no_faults clk1 (items s))"
  have deleted: "handle_call no_faults clk1
      \<lparr>name = lit ''delete'',
       arguments = \<lparr>key = k, val_arg = v1, namespace = ns, ttl = t1, includeMetadata = b1\<rparr>\<rparr> s =
      (Inr (Text (lit ''Successfully deleted key: '' @ str k)),
       \<lparr>initialized = True, items = AList.delete ?sk ?d1\<rparr>)"
    using assms by (simp add: handle_call_no_faults delete_case_valid)
  have absent: "map_of (snd (cleanExpiredValues no_faults clk2 (AList.delete ?sk ?d1))) ?sk = None"
    by (simp add: map_of_swept delete_conv')
  show ?thesis
    unfolding deleted using assms absent
    by (simp add: handle_call_no_faults retrieve_case_valid)
qed

theorem delete_then_retrieve_witness:
  "fst (handle_call no_faults \<lparr>t_sweep = 10, t_first = 11, t_second = 12\<rparr>
            \<lparr>name = lit ''delete'',
             arguments = \<lparr>key = JStr (lit ''a''), val_arg = JUndefined, namespace = JStr (lit ''proj''),
                          ttl = None, includeMetadata = False\<rparr>\<rparr>
            \<lparr>initialized = True, items = []\<rparr>)
           = Inr (Text (lit ''Successfully deleted key: a''))
       \<and> fst (handle_call no_faults \<lparr>t_sweep = 20, t_first = 21, t_second = 22\<rparr>
            \<lparr>name = lit ''retrieve'',
             arguments = \<lparr>key = JStr (lit ''a''), val_arg = JUndefined, namespace = JStr (lit ''proj''),
                          ttl = None, includeMetadata = False\<rparr>\<rparr>
            (snd (handle_call no_faults \<lparr>t_sweep = 10, t_first = 11, t_second = 12\<rparr>
               \<lparr>name = lit ''delete'',
                arguments = \<lparr>key = JStr (lit ''a''), val_arg = JUndefined, namespace = JStr (lit ''proj''),
                             ttl = None, includeMetadata = False\<rparr>\<rparr>
               \<lparr>initialized = True, items = []\<rparr>)))
           = Inl (McpError InvalidRequest (lit ''No value found for key: a''))"
proof -
  have k: "validateKey (JStr (lit ''a'')) = Inr ()"
    by (simp add: validateKey_ok_iff lit_def key_char_def)
  have n: "validateNamespace (JStr (lit ''proj'')) = Inr ()"
    by (simp add: validateNamespace_def validateKey_ok_iff lit_def key_char_def)
  show ?thesis
    using delete_then_retrieve [OF k n, of "\<lparr>t_sweep = 10, t_first = 11, t_second = 12\<rparr>" JUndefined None False
        "\<lparr>initialized = True, items = []\<rparr>" "\<lparr>t_sweep = 20, t_first = 21, t_second = 22\<rparr>"
        JUndefined None False]
    by (simp add: lit_def)
qed

section \<open>List\<close>

text \<open>
  C6: for every storage and every namespace that passes validation, \<open>list\<close> without
  metadata returns exactly the storage keys, in their composed form, that begin with
  the namespace followed by a colon, in the order in which the mapping enumerates
  them; without a namespace it returns all the storage keys, those of every namespace
  included. The storage is left as it is. In a whole call the storage that \<open>list\<close>
  enumerates is the one the sweep of that call leaves. (\<open>startsWith\<close> is the prefix
  test, lemma \<open>startsWith_iff_append\<close>.)
\<close>

theorem list_keys:
  assumes "validateNamespace ns = Inr ()"
  shows "list_case no_faults
            \<lparr>key = k, val_arg = v, namespace = ns, ttl = t, includeMetadata = False\<rparr> d
          = (Inr (KeysJson
              (if ns = JUndefined then map fst d
               else filter (\<lambda>sk. startsWith sk (str ns @ lit '':'')) (map fst d))), d)
       \<and> handle_call no_faults clk
            \<lparr>name = lit ''list'',
             arguments = \<lparr>key = k, val_arg = v, namespace = ns, ttl = t, includeMetadata = False\<rparr>\<rparr> s
          = (fst (list_case no_faults
                   \<lparr>key = k, val_arg = v, namespace = ns, ttl = t, includeMetadata = False\<rparr>
                   (snd (cleanExpiredValues no_faults clk (items s)))),
             \<lparr>initialized = True, items = snd (cleanExpiredValues no_faults clk (items s))\<rparr>)"
  using assms by (simp add: handle_call_no_faults list_case_valid)

theorem list_keys_witness:
  "list_case no_faults
      \<lparr>key = JUndefined, val_arg = JUndefined, namespace = JStr (lit ''ns''), ttl = None,
       includeMetadata = False\<rparr>
      [(lit ''ns:a'', \<lparr>val = lit ''1'', timestamp = 10, expiry = None\<rparr>),
       (lit ''b'', \<lparr>val = lit ''2'', timestamp = 20, expiry = None\<rparr>),
       (lit ''other:c'', \<lparr>val = lit ''3'', timestamp = 30, expiry = None\<rparr>),
       (lit ''ns:d'', \<lparr>val = lit ''4'', timestamp = 40, expiry = None\<rparr>)]
    = (Inr (KeysJson [lit ''ns:a'', lit ''ns:d'']),
       [(lit ''ns:a'', \<lparr>val = lit ''1'', timestamp = 10, expiry = None\<rparr>),
        (lit ''b'', \<lparr>val = lit ''2'', timestamp = 20, expiry = None\<rparr>),
        (lit ''other:c'', \<lparr>val = lit ''3'', timestamp = 30, expiry = None\<rparr>),
        (lit ''ns:d'', \<lparr>val = lit ''4'', timestamp = 40, expiry = None\<rparr>)])"
proof -
  have n: "validateNamespace (JStr (lit ''ns'')) = Inr ()"
    by (simp add: validateNamespace_def validateKey_ok_iff lit_def key_char_def)
  show ?thesis
    using list_keys [OF n, of JUndefined JUndefined None
        "[(lit ''ns:a'', \<lparr>val = lit ''1'', timestamp = 10, expiry = None\<rparr>),
          (lit ''b'', \<lparr>val = lit ''2'', timestamp = 20, expiry = None\<rparr>),
          (lit ''other:c'', \<lparr>val = lit ''3'', timestamp = 30, expiry = None\<rparr>),
          (lit ''ns:d'', \<lparr>val = lit ''4'', timestamp = 40, expiry = None\<rparr>)]"]
    by (simp add: startsWith_def lit_def)
qed

section \<open>The record that store writes\<close>




section \<open>Calls whose inputs fail validation\<close>

text \<open>
  The sweep runs before validation. Here a \<open>store\<close> with a key that contains a space
  is rejected, and the call has removed the expired record \<open>old\<close> all the same: the
  storage is not what it was before the call.
\<close>

theorem invalid_store_sweeps:
  "handle_call no_faults \<lparr>t_sweep = 5000, t_first = 5000, t_second = 5000\<rparr>
      \<lparr>name = lit ''store'',
       arguments = \<lparr>key = JStr (lit ''a b''), val_arg = JStr (lit ''1''), namespace = JUndefined,
                    ttl = None, includeMetadata = False\<rparr>\<rparr>
      \<lparr>initialized = True,
       items = [(lit ''old'', \<lparr>val = lit ''x'', timestamp = 0, expiry = Some 1000\<rparr>)]\<rparr>
    = (Inl (McpError InvalidParams
        (lit ''Key must contain only alphanumeric characters, hyphens, underscores, dots, and colons'')),
       \<lparr>initialized = True, items = []\<rparr>)"
  by (simp add: handle_call_no_faults store_case_def validateKey_def
        MAX_KEY_LENGTH_def KEY_PATTERN_test_def key_char_def
        cleanExpiredValues_no_faults expired_Some lit_def)

text \<open>
  C3 (amended): for every call of one of the four operations whose inputs fail
  validation, the call fails with \<open>InvalidParams\<close> and the operation itself writes and
  deletes nothing: the storage after the call is exactly the storage that the expiry
  sweep of that call leaves. Each key holds what it held before, unless its record
  had expired at the time of the sweep, and when no record had expired the storage
  is unchanged.
\<close>

theorem invalid_input_only_sweeps:
  assumes "fails_validation req"
  shows "(\<exists>m. fst (handle_call no_faults clk req s) = Inl (McpError InvalidParams m))
       \<and> items (snd (handle_call no_faults clk req s))
           = snd (cleanExpiredValues no_faults clk (items s))
       \<and> (\<forall>k. map_of (items (snd (handle_call no_faults clk req s))) k
                = (if expired (t_sweep clk) (map_of (items s) k) then None else map_of (items s) k))
       \<and> ((\<forall>k. \<not> expired (t_sweep clk) (map_of (items s) k))
            \<longrightarrow> items (snd (handle_call no_faults clk req s)) = items s)"
proof -
  obtain m where m: "dispatch no_faults clk req (snd (cleanExpiredValues no_faults clk (items s)))
      = (Inl (McpError InvalidParams m), snd (cleanExpiredValues no_faults clk (items s)))"
    using dispatch_invalid [OF assms] by blast
  have res: "handle_call no_faults clk req s
      = (Inl (McpError InvalidParams m),
         \<lparr>initialized = True, items = snd (cleanExpiredValues no_faults clk (items s))\<rparr>)"
    by (simp add: handle_call_no_faults m)
  show ?thesis
    unfolding res by (simp add: map_of_swept swept_nothing_expired)
qed

theorem invalid_input_only_sweeps_witness:
  "fails_validation
      \<lparr>name = lit ''delete'',
       arguments = \<lparr>key = JStr (lit ''a b''), val_arg = JUndefined, namespace = JUndefined,
                    ttl = None, includeMetadata = False\<rparr>\<rparr>
   \<and> (\<exists>m. fst (handle_call no_faults \<lparr>t_sweep = 5000, t_first = 5000, t_second = 5000\<rparr>
      \<lparr>name = lit ''delete'',
       arguments = \<lparr>key = JStr (lit ''a b''), val_arg = JUndefined, namespace = JUndefined,
                    ttl = None, includeMetadata = False\<rparr>\<rparr>
      \<lparr>initialized = True,
       items = [(lit ''old'', \<lparr>val = lit ''x'', timestamp = 0, expiry = Some 1000\<rparr>),
                (lit ''a'', \<lparr>val = lit ''y'', timestamp = 0, expiry = Some 9000\<rparr>)]\<rparr>)
       = Inl (McpError InvalidParams m))
   \<and> items (snd (handle_call no_faults \<lparr>t_sweep = 5000, t_first = 5000, t_second = 5000\<rparr>
      \<lparr>name = lit ''delete'',
       arguments = \<lparr>key = JStr (lit ''a b''), val_arg = JUndefined, namespace = JUndefined,
                    ttl = None, includeMetadata = False\<rparr>\<rparr>
      \<lparr>initialized = True,
       items = [(lit ''old'', \<lparr>val = lit ''x'', timestamp = 0, expiry = Some 1000\<rparr>),
                (lit ''a'', \<lparr>val = lit ''y'', timestamp = 0, expiry = Some 9000\<rparr>)]\<rparr>))
       = [(lit ''a'', \<lparr>val = lit ''y'', timestamp = 0, expiry = Some 9000\<rparr>)]"
proof -
  have f: "fails_validation
      \<lparr>name = lit ''delete'',
       arguments = \<lparr>key = JStr (lit ''a b''), val_arg = JUndefined, namespace = JUndefined,
                    ttl = None, includeMetadata = False\<rparr>\<rparr>"
    by (simp add: fails_validation_def validateKey_ok_iff lit_def key_char_def)
  show ?thesis
    using f invalid_input_only_sweeps [OF f, of "\<lparr>t_sweep = 5000, t_first = 5000, t_second = 5000\<rparr>"
      "\<lparr>initialized = True,
       items = [(lit ''old'', \<lparr>val = lit ''x'', timestamp = 0, expiry = Some 1000\<rparr>),
                (lit ''a'', \<lparr>val = lit ''y'', timestamp = 0, expiry = Some 9000\<rparr>)]\<rparr>"]
    by (simp add: cleanExpiredValues_no_faults expired_Some lit_def)
qed

section \<open>The expiry sweep\<close>

text \<open>
  C10: the sweep never fails when the mapping does not, and it removes the record of
  a key if and only if the expiry of the record is set, is not zero and is strictly
  earlier than the time the sweep reads; a record that remains is the record that was
  there. In a whole call, a record that is live at the time of the sweep is still
  there unchanged after the call, unless the call is a \<open>store\<close> to its storage key
  (then a record is still there) or a \<open>delete\<close> of its storage key.
\<close>

theorem sweep_removes_exactly_expired:
  "fst (cleanExpiredValues no_faults clk d) = Inr ()
   \<and> (map_of (snd (cleanExpiredValues no_faults clk d)) k = None
        \<longleftrightarrow> map_of d k = None
            \<or> (\<exists>r e. map_of d k = Some r \<and> expiry r = Some e \<and> e \<noteq> 0 \<and> e < t_sweep clk))
   \<and> (\<forall>r. map_of (snd (cleanExpiredValues no_faults clk d)) k = Some r \<longrightarrow> map_of d k = Some r)
   \<and> (\<forall>r. map_of (items s) k = Some r
          \<and> \<not> (\<exists>e. expiry r = Some e \<and> e \<noteq> 0 \<and> e < t_sweep clk)
        \<longrightarrow> map_of (items (snd (handle_call no_faults clk req s))) k = Some r
            \<or> name req = lit ''store''
                 \<and> storageKey (namespace (arguments req)) (key (arguments req)) = k
                 \<and> map_of (items (snd (handle_call no_faults clk req s))) k \<noteq> None
            \<or> name req = lit ''delete''
                 \<and> storageKey (namespace (arguments req)) (key (arguments req)) = k)"
proof -
  have a: "fst (cleanExpiredValues no_faults clk d) = Inr ()"
    by (simp add: cleanExpiredValues_no_faults)
  have b: "map_of (snd (cleanExpiredValues no_faults clk d)) k = None
        \<longleftrightarrow> map_of d k = None
            \<or> (\<exists>r e. map_of d k = Some r \<and> expiry r = Some e \<and> e \<noteq> 0 \<and> e < t_sweep clk)"
    by (cases "map_of d k") (auto simp: map_of_swept expired_Some)
  have c: "\<forall>r. map_of (snd (cleanExpiredValues no_faults clk d)) k = Some r \<longrightarrow> map_of d k = Some r"
    by (simp add: map_of_swept split: if_splits)
  have e: "map_of (items (snd (handle_call no_faults clk req s))) k = Some r
            \<or> name req = lit ''store''
                 \<and> storageKey (namespace (arguments req)) (key (arguments req)) = k
                 \<and> map_of (items (snd (handle_call no_faults clk req s))) k \<noteq> None
            \<or> name req = lit ''delete''
                 \<and> storageKey (namespace (arguments req)) (key (arguments req)) = k"
    if live: "map_of (items s) k = Some r" "\<not> (\<exists>e. expiry r = Some e \<and> e \<noteq> 0 \<and> e < t_sweep clk)"
    for r
  proof -
    have kept: "map_of (snd (cleanExpiredValues no_faults clk (items s))) k = Some r"
      using live by (simp add: map_of_swept expired_Some)
    have after: "items (snd (handle_call no_faults clk req s))
        = snd (dispatch no_faults clk req (snd (cleanExpiredValues no_faults clk (items s))))"
      by (simp add: handle_call_no_faults split: prod.splits)
    show ?thesis
      unfolding after
      using dispatch_frame [of clk req "snd (cleanExpiredValues no_faults clk (items s))" k] kept
      by auto
  qed
  from a b c e show ?thesis by blast
qed

theorem sweep_removes_exactly_expired_witness:
  "map_of (snd (cleanExpiredValues no_faults \<lparr>t_sweep = 5000, t_first = 5000, t_second = 5000\<rparr>
      [(lit ''old'', \<lparr>val = lit ''x'', timestamp = 0, expiry = Some 1000\<rparr>),
       (lit ''now'', \<lparr>val = lit ''y'', timestamp = 0, expiry = Some 5000\<rparr>),
       (lit ''zero'', \<lparr>val = lit ''z'', timestamp = 0, expiry = Some 0\<rparr>)])) (lit ''old'') = None
   \<and> map_of (items (snd (handle_call no_faults \<lparr>t_sweep = 5000, t_first = 5000, t_second = 5000\<rparr>
      \<lparr>name = lit ''delete'',
       arguments = \<lparr>key = JStr (lit ''old''), val_arg = JUndefined, namespace = JUndefined,
                    ttl = None, includeMetadata = False\<rparr>\<rparr>
      \<lparr>initialized = True,
       items = [(lit ''old'', \<lparr>val = lit ''x'', timestamp = 0, expiry = Some 1000\<rparr>),
                (lit ''now'', \<lparr>val = lit ''y'', timestamp = 0, expiry = Some 5000\<rparr>),
                (lit ''zero'', \<lparr>val = lit ''z'', timestamp = 0, expiry = Some 0\<rparr>)]\<rparr>))) (lit ''now'')
       = Some \<lparr>val = lit ''y'', timestamp = 0, expiry = Some 5000\<rparr>"
proof -
  let ?d = "[(lit ''old'', \<lparr>val = lit ''x'', timestamp = 0, expiry = Some 1000\<rparr>),
             (lit ''now'', \<lparr>val = lit ''y'', timestamp = 0, expiry = Some 5000\<rparr>),
             (lit ''zero'', \<lparr>val = lit ''z'', timestamp = 0, expiry = Some 0\<rparr>)]"
  let ?clk = "\<lparr>t_sweep = 5000, t_first = 5000, t_second = 5000\<rparr>"
  let ?req = "\<lparr>name = lit ''delete'',
       arguments = \<lparr>key = JStr (lit ''old''), val_arg = JUndefined, namespace = JUndefined,
                    ttl = None, includeMetadata = False\<rparr>\<rparr>"
  have gone: "map_of (snd (cleanExpiredValues no_faults ?clk ?d)) (lit ''old'') = None"
    using sweep_removes_exactly_expired [of ?clk ?d "lit ''old''" "\<lparr>initialized = True, items = ?d\<rparr>" ?req]
    by (simp add: lit_def)
  have kept: "map_of (items (snd (handle_call no_faults ?clk ?req \<lparr>initialized = True, items = ?d\<rparr>)))
      (lit ''now'') = Some \<lparr>val = lit ''y'', timestamp = 0, expiry = Some 5000\<rparr>"
    using sweep_removes_exactly_expired [of ?clk ?d "lit ''now''" "\<lparr>initialized = True, items = ?d\<rparr>" ?req]
    by (simp add: lit_def storageKey_def)
  from gone kept show ?thesis by blast
qed

section \<open>Errors that leave the handler\<close>

text \<open>
  C9 (the code at the failing input): the same failure of the storage engine leaves
  the handler in two ways. When \<open>storage.keys()\<close> throws in the sweep, which runs
  before the \<open>try\<close> block, the error leaves the handler as it is, not as an
  \<open>McpError\<close>; when \<open>storage.getItem\<close> throws inside \<open>retrieve\<close>, the \<open>catch\<close> clause
  wraps it into \<open>InternalError\<close> with the same text. (Lemma
  \<open>plain_error_only_before_try\<close>: an error that is not an \<open>McpError\<close> can only come
  from the initialisation or the sweep.)
\<close>

theorem sweep_error_not_wrapped:
  "handle_call (no_faults\<lparr>keys_fault := Some (lit ''Error: EACCES'')\<rparr>)
      \<lparr>t_sweep = 10, t_first = 11, t_second = 12\<rparr>
      \<lparr>name = lit ''retrieve'',
       arguments = \<lparr>key = JStr (lit ''a''), val_arg = JUndefined, namespace = JUndefined,
                    ttl = None, includeMetadata = False\<rparr>\<rparr>
      \<lparr>initialized = True, items = []\<rparr>
    = (Inl (Error (lit ''Error: EACCES'')), \<lparr>initialized = True, items = []\<rparr>)
   \<and> handle_call (no_faults\<lparr>getItem_fault := (\<lambda>k. Some (lit ''Error: EACCES''))\<rparr>)
      \<lparr>t_sweep = 10, t_first = 11, t_second = 12\<rparr>
      \<lparr>name = lit ''retrieve'',
       arguments = \<lparr>key = JStr (lit ''a''), val_arg = JUndefined, namespace = JUndefined,
                    ttl = None, includeMetadata = False\<rparr>\<rparr>
      \<lparr>initialized = True, items = []\<rparr>
    = (Inl (McpError InternalError (lit ''Error: EACCES'')), \<lparr>initialized = True, items = []\<rparr>)"
  by (simp add: handle_call_def ensureInitialized_def cleanExpiredValues_def storage_keys_def
        storage_getItem_def no_faults_def dispatch_def retrieve_case_def validateKey_def
        validateNamespace_def MAX_KEY_LENGTH_def KEY_PATTERN_test_def key_char_def storageKey_def
        lit_def)

section \<open>The size limit of values\<close>

text \<open>
  C4 (the code at the failing input): \<open>validateValue\<close> compares \<open>value.length\<close>, the
  number of UTF-16 code units, with 1048576, while its message and the claim word the
  limit in bytes. A value of 524289 times the letter U+00E9 takes 1048578 bytes as
  UTF-8 (and as many as UTF-16), more than one mebibyte, and \<open>store\<close> accepts it and
  writes the record. (What does hold: a value of more than 1048576 code units is
  rejected and nothing is written, lemma \<open>long_value_rejected\<close>; a string of at most
  1048576 bytes is accepted, lemma \<open>small_value_accepted\<close>.)
\<close>

theorem store_accepts_two_byte_text:
  "utf8_bytes (replicate 524289 (0xE9 :: code_unit)) = 1048578
   \<and> handle_call no_faults \<lparr>t_sweep = 10, t_first = 11, t_second = 12\<rparr>
      \<lparr>name = lit ''store'',
       arguments = \<lparr>key = JStr (lit ''a''), val_arg = JStr (replicate 524289 0xE9),
                    namespace = JUndefined, ttl = None, includeMetadata = False\<rparr>\<rparr>
      \<lparr>initialized = True, items = []\<rparr>
    = (Inr (Text (lit ''Successfully stored value for key: a'')),
       \<lparr>initialized = True,
        items = [(lit ''a'', \<lparr>val = replicate 524289 0xE9, timestamp = 11, expiry = None\<rparr>)]\<rparr>)"
proof -
  have k: "validateKey (JStr (lit ''a'')) = Inr ()"
    by (simp add: validateKey_ok_iff lit_def key_char_def)
  have v: "validateValue (JStr (replicate 524289 (0xE9 :: code_unit))) = Inr ()"
    by (simp add: validateValue_def MAX_VALUE_LENGTH_def)
  have n: "validateNamespace JUndefined = Inr ()"
    by (simp add: validateNamespace_def)
  have "handle_call no_faults \<lparr>t_sweep = 10, t_first = 11, t_second = 12\<rparr>
      \<lparr>name = lit ''store'',
       arguments = \<lparr>key = JStr (lit ''a''), val_arg = JStr (replicate 524289 0xE9),
                    namespace = JUndefined, ttl = None, includeMetadata = False\<rparr>\<rparr>
      \<lparr>initialized = True, items = []\<rparr>
    = (Inr (Text (lit ''Successfully stored value for key: a'')),
       \<lparr>initialized = True,
        items = [(lit ''a'', \<lparr>val = replicate 524289 0xE9, timestamp = 11, expiry = None\<rparr>)]\<rparr>)"
    using k v n
    by (simp add: handle_call_no_faults store_case_valid cleanExpiredValues_no_faults storageKey_def
          lit_def)
  then show ?thesis
    by (simp add: utf8_bytes_two_byte_units)
qed

end
